theory Spec2Isabelle
  imports Complex_Main
begin

section \<open>Document type detection: a shallow embedding\<close>

text \<open>
  The development follows \<^verbatim>\<open>src/detection\<close>: the data containers of
  \<^verbatim>\<open>models.py\<close>, the static catalog of \<^verbatim>\<open>config.py\<close>, the catalog accessor of
  \<^verbatim>\<open>document_service.py\<close> and the detector of \<^verbatim>\<open>file_detector.py\<close>.

  Conventions of the embedding.
  \<^item> A Python \<^verbatim>\<open>str\<close> is a \<open>string\<close>; a character outside ASCII stands as its UTF-8
    bytes (\<open>e_acute\<close> below), which keeps equality of strings as it is in Python.
  \<^item> A Python \<^verbatim>\<open>float\<close> is a \<open>real\<close>. Every confidence the classifiers produce is one
    of the decimal literals 0.0, 0.2, 0.3, 0.6, 0.7, 0.8, 0.9; the comparisons and
    the saturating sum of the resolver give on the binary doubles of these literals the
    results they give on the decimals. The size in megabytes that is bucketed is the
    quotient of an integer by \<open>2 ^ 20\<close>: Python's division rounds the exact quotient
    to the nearest double, which is the quotient itself below \<open>2 ^ 53\<close> bytes and stays
    on the same side of the thresholds 1, 10 and 50 beyond. Not-a-number and the
    infinities are outside the model. The digits of the estimated time and the memory
    class are computed on exact reals where Python rounds each operation.
  \<^item> \<^verbatim>\<open>Optional[T]\<close> is \<open>T option\<close>, a \<^verbatim>\<open>dict\<close> is a map.
  \<^item> A raised exception is a value: a fallible function returns \<open>exception + 'a\<close>,
    with \<open>Inl\<close> for the exception, and \<^verbatim>\<open>try ... except Exception\<close> is a case
    distinction on that sum.
  \<^item> A leading underscore of a method name is dropped (\<^verbatim>\<open>_detect_by_mime\<close> is
    \<open>detect_by_mime\<close>).
\<close>

subsection \<open>Strings\<close>

definition e_acute :: string where
  "e_acute = [CHR 0xC3, CHR 0xA9]"

text \<open>\<^verbatim>\<open>str.lower\<close> on the ASCII range; the catalog's keys and the extensions of the
  claims are ASCII.\<close>

definition lower_char :: "char \<Rightarrow> char" where
  "lower_char c =
     (case map_of (zip ''ABCDEFGHIJKLMNOPQRSTUVWXYZ'' ''abcdefghijklmnopqrstuvwxyz'') c of
        None \<Rightarrow> c | Some l \<Rightarrow> l)"

definition lower :: "string \<Rightarrow> string" where
  "lower s = map lower_char s"

text \<open>\<^verbatim>\<open>str(n)\<close> for an integer, as the f-strings render it.\<close>

fun str_nat :: "nat \<Rightarrow> string" where
  "str_nat n =
     (if n < 10 then [char_of (48 + n)]
      else str_nat (n div 10) @ [char_of (48 + n mod 10)])"

definition str_int :: "int \<Rightarrow> string" where
  "str_int i = (if i < 0 then ''-'' @ str_nat (nat (- i)) else str_nat (nat i))"

text \<open>\<^verbatim>\<open>int(x)\<close> truncates towards zero.\<close>

definition py_int :: "real \<Rightarrow> int" where
  "py_int x = (if 0 \<le> x then \<lfloor>x\<rfloor> else \<lceil>x\<rceil>)"

text \<open>\<^verbatim>\<open>round(x, 2)\<close>: to the nearest hundredth, a tie to the even one.\<close>

definition round2 :: "real \<Rightarrow> real" where
  "round2 x =
     (let y = x * 100; f = \<lfloor>y\<rfloor>; d = y - of_int f
      in of_int (if d < 1 / 2 then f else if 1 / 2 < d then f + 1
                 else if even f then f else f + 1) / 100)"

subsection \<open>Exceptions\<close>

datatype exception =
    OSError string
  | AttributeError string
  | RuntimeError string
  | ValidationError string

fun str_exception :: "exception \<Rightarrow> string" where
  "str_exception (OSError m) = m"
| "str_exception (AttributeError m) = m"
| "str_exception (RuntimeError m) = m"
| "str_exception (ValidationError m) = m"

subsection \<open>models.py\<close>

datatype ComplexityLevel = LOW | MEDIUM | HIGH

text \<open>The \<^verbatim>\<open>.value\<close> of a member of the string enumeration.\<close>

fun complexity_value :: "ComplexityLevel \<Rightarrow> string" where
  "complexity_value LOW = ''low''"
| "complexity_value MEDIUM = ''medium''"
| "complexity_value HIGH = ''high''"

text \<open>The fields of \<^verbatim>\<open>DocumentType\<close> carry the suffix \<open>_dt\<close> where a later record
  has a field of the same name.\<close>

record DocumentType =
  extension_dt :: string
  mime_type_dt :: string
  description_dt :: string
  parser_module :: string
  complexity_dt :: ComplexityLevel

record FileInfo =
  path :: string
  name :: string
  stem :: string
  extension :: string
  size_bytes :: int
  size_mb :: real
  size_category :: string

text \<open>The field \<^verbatim>\<open>method\<close> is \<open>method_dr\<close>: the plain name is a keyword of
  Isabelle.\<close>

record DetectionResult =
  method_dr :: string
  detected_type :: string
  mime_type :: string
  description :: string
  confidence :: real
  is_supported :: bool
  resolution :: "string option"
  extension_match :: "bool option"

record ProcessingInfo =
  can_process :: bool
  recommended_parser :: "string option"
  complexity :: "string option"
  estimated_time :: "string option"
  memory_requirement :: "string option"
  reason :: "string option"

record DocumentDetectionResult =
  file_info :: "FileInfo option"
  detection :: "DetectionResult option"
  processing :: "ProcessingInfo option"
  status :: string
  error :: "string option"

subsection \<open>config.py\<close>

text \<open>The four entries of \<^verbatim>\<open>SUPPORTED_EXTENSIONS\<close>, in the order of the source. Each
  configuration dictionary is written as the \<^verbatim>\<open>DocumentType\<close> that the factory builds
  from it: the two field validators accept these entries and leave them unchanged.\<close>

definition SUPPORTED_EXTENSIONS :: "(string \<times> DocumentType) list" where
  "SUPPORTED_EXTENSIONS =
    [(''.docx'', \<lparr>extension_dt = ''.docx'',
        mime_type_dt = ''application/vnd.openxmlformats-officedocument.wordprocessingml.document'',
        description_dt = ''Microsoft Word Document'',
        parser_module = ''python-docx'', complexity_dt = MEDIUM\<rparr>),
     (''.pdf'', \<lparr>extension_dt = ''.pdf'', mime_type_dt = ''application/pdf'',
        description_dt = ''PDF Document'',
        parser_module = ''pdfplumber'', complexity_dt = HIGH\<rparr>),
     (''.txt'', \<lparr>extension_dt = ''.txt'', mime_type_dt = ''text/plain'',
        description_dt = ''Plain Text File'',
        parser_module = ''built-in'', complexity_dt = LOW\<rparr>),
     (''.odt'', \<lparr>extension_dt = ''.odt'',
        mime_type_dt = ''application/vnd.oasis.opendocument.text'',
        description_dt = ''OpenDocument Text'',
        parser_module = ''odfpy'', complexity_dt = MEDIUM\<rparr>)]"

text \<open>A dictionary comprehension stores the items from left to right, a later item
  replacing an earlier one with the same key.\<close>

definition get_supported_types :: "string \<rightharpoonup> DocumentType" where
  "get_supported_types =
     fold (\<lambda>(ext, config) m. m(ext \<mapsto> config)) SUPPORTED_EXTENSIONS Map.empty"

definition get_mime_to_extension_mapping :: "string \<rightharpoonup> string" where
  "get_mime_to_extension_mapping =
     fold (\<lambda>(ext, config) m. m(mime_type_dt config \<mapsto> ext)) SUPPORTED_EXTENSIONS Map.empty"

subsection \<open>document\_service.py\<close>

record DocumentService =
  supported_types :: "string \<rightharpoonup> DocumentType"
  mime_to_extension :: "string \<rightharpoonup> string"

text \<open>\<^verbatim>\<open>DocumentService()\<close>: the service over the default configuration.\<close>

definition DocumentService_init :: DocumentService where
  "DocumentService_init =
     \<lparr>supported_types = get_supported_types,
      mime_to_extension = get_mime_to_extension_mapping\<rparr>"

definition ds_is_supported :: "DocumentService \<Rightarrow> string \<Rightarrow> bool" where
  "ds_is_supported ds ext = (supported_types ds (lower ext) \<noteq> None)"

definition get_document_type :: "DocumentService \<Rightarrow> string \<Rightarrow> DocumentType option" where
  "get_document_type ds ext = supported_types ds (lower ext)"

text \<open>The argument may be \<^verbatim>\<open>None\<close> (no media type was guessed); \<^verbatim>\<open>dict.get(None)\<close>
  finds nothing.\<close>

definition get_extension_from_mime :: "DocumentService \<Rightarrow> string option \<Rightarrow> string option" where
  "get_extension_from_mime ds mime =
     (case mime of None \<Rightarrow> None | Some m \<Rightarrow> mime_to_extension ds m)"

subsection \<open>The file system and the sniffing libraries\<close>

text \<open>
  What the environment answers about the one path of a call. \<open>path_exists\<close> is
  \<^verbatim>\<open>Path(file_path).exists()\<close>, which answers \<^verbatim>\<open>False\<close> for a missing entry
  (\<^verbatim>\<open>ENOENT\<close>, \<^verbatim>\<open>ENOTDIR\<close>, \<^verbatim>\<open>EBADF\<close>, \<^verbatim>\<open>ELOOP\<close>) and re-raises any other
  \<^verbatim>\<open>OSError\<close> of the underlying \<^verbatim>\<open>stat\<close>, such as a denied permission on a
  directory of the path; \<open>stat_st_size\<close> is \<^verbatim>\<open>path_obj.stat().st_size\<close>
  and \<open>path_resolve\<close> is \<^verbatim>\<open>str(path_obj.resolve(strict=False))\<close>, each of which may
  raise; \<open>path_name\<close>, \<open>path_stem\<close> and \<open>path_suffix\<close> are the parts pathlib reads
  off the path. \<open>HAS_MAGIC\<close> and \<open>HAS_FILETYPE\<close> are the module's import flags, and the
  three last fields are the answers of \<^verbatim>\<open>magic.from_file\<close>, of \<^verbatim>\<open>filetype.guess\<close>
  (the \<^verbatim>\<open>mime\<close> of the guessed kind, if any) and of \<^verbatim>\<open>mimetypes.guess_type\<close> (its
  first component).
\<close>

record world =
  path_exists :: "exception + bool"
  stat_st_size :: "exception + int"
  path_resolve :: "exception + string"
  path_name :: string
  path_stem :: string
  path_suffix :: string
  HAS_MAGIC :: bool
  HAS_FILETYPE :: bool
  magic_from_file :: "exception + string"
  filetype_guess :: "exception + string option"
  mimetypes_guess_type :: "exception + string option"

subsection \<open>file\_detector.py: the private helpers\<close>

definition categorize_file_size :: "int \<Rightarrow> string" where
  "categorize_file_size sz =
     (let mb = real_of_int sz / (1024 * 1024)
      in if mb < 1 then ''small''
         else if mb < 10 then ''medium''
         else if mb < 50 then ''large''
         else ''very_large'')"

definition estimate_size_complexity :: "real \<Rightarrow> string" where
  "estimate_size_complexity mb =
     (if mb < 5 then ''low'' else if mb < 20 then ''medium'' else ''high'')"

text \<open>The dictionary \<^verbatim>\<open>order\<close> of \<^verbatim>\<open>_max_complexity\<close>, read with
  \<^verbatim>\<open>order.get(c, 0)\<close>.\<close>

definition order_get :: "string \<Rightarrow> nat" where
  "order_get c =
     (case map_of [(''low'', 1), (''medium'', 2), (''high'', 3)] c of
        None \<Rightarrow> 0 | Some k \<Rightarrow> k)"

definition max_complexity :: "string \<Rightarrow> string \<Rightarrow> string" where
  "max_complexity complexity1 complexity2 =
     (if order_get complexity2 \<le> order_get complexity1 then complexity1 else complexity2)"

definition estimate_processing_time :: "string \<Rightarrow> real \<Rightarrow> string" where
  "estimate_processing_time cplx mb =
     (let base_time =
            (case map_of [(''low'', 1), (''medium'', 5), (''high'', 15 :: real)] cplx of
               None \<Rightarrow> 10 | Some t \<Rightarrow> t);
          size_factor = max 1 (mb / 5);
          estimated_seconds = base_time * size_factor
      in if estimated_seconds < 60 then ''~'' @ str_int (py_int estimated_seconds) @ ''s''
         else ''~'' @ str_int (py_int (estimated_seconds / 60)) @ ''min'')"

definition estimate_memory_usage :: "string \<Rightarrow> real \<Rightarrow> string" where
  "estimate_memory_usage file_type mb =
     (let factor =
            (case map_of [(''.txt'', 2), (''.docx'', 4), (''.pdf'', 6), (''.odt'', 5 :: real)]
                    file_type of
               None \<Rightarrow> 4 | Some k \<Rightarrow> k);
          estimated_mb = mb * factor
      in if estimated_mb < 100 then ''low''
         else if estimated_mb < 500 then ''medium''
         else ''high'')"

subsection \<open>file\_detector.py: the pipeline steps\<close>

definition extract_file_info :: "world \<Rightarrow> exception + FileInfo" where
  "extract_file_info w =
     (case stat_st_size w of
        Inl e \<Rightarrow> Inl e
      | Inr sz \<Rightarrow>
          (case path_resolve w of
             Inl e \<Rightarrow> Inl e
           | Inr p \<Rightarrow>
               Inr \<lparr>path = p, name = path_name w, stem = path_stem w,
                    extension = lower (path_suffix w), size_bytes = sz,
                    size_mb = round2 (real_of_int sz / (1024 * 1024)),
                    size_category = categorize_file_size sz\<rparr>))"

text \<open>Reading an attribute of \<^verbatim>\<open>None\<close> raises \<^verbatim>\<open>AttributeError\<close>; the branch is
  written out wherever the source reads a field of what \<^verbatim>\<open>get_document_type\<close>
  returned.\<close>

definition none_has_no_attribute :: "string \<Rightarrow> exception" where
  "none_has_no_attribute a =
     AttributeError
       ([CHR 0x27] @ ''NoneType'' @ [CHR 0x27] @ '' object has no attribute '' @
        [CHR 0x27] @ a @ [CHR 0x27])"

definition detect_by_extension :: "DocumentService \<Rightarrow> world \<Rightarrow> exception + DetectionResult" where
  "detect_by_extension ds w =
     (let ext = lower (path_suffix w)
      in if ds_is_supported ds ext then
           (case get_document_type ds ext of
              None \<Rightarrow> Inl (none_has_no_attribute ''mime_type'')
            | Some doc_type \<Rightarrow>
                Inr \<lparr>method_dr = ''extension'', detected_type = ext,
                     mime_type = mime_type_dt doc_type,
                     description = description_dt doc_type,
                     confidence = 0.7, is_supported = True,
                     resolution = None, extension_match = None\<rparr>)
         else
           Inr \<lparr>method_dr = ''extension'', detected_type = ext,
                mime_type = ''unknown'',
                description = ''Type non support'' @ e_acute,
                confidence = 0.3, is_supported = False,
                resolution = None, extension_match = None\<rparr>)"

text \<open>The sniffing strategy that the import flags select, with its confidence.
  \<^verbatim>\<open>HAS_FILETYPE\<close> is read only when \<^verbatim>\<open>HAS_MAGIC\<close> is false.\<close>

definition sniff :: "world \<Rightarrow> exception + (string option \<times> real)" where
  "sniff w =
     (if HAS_MAGIC w then
        (case magic_from_file w of Inl e \<Rightarrow> Inl e | Inr m \<Rightarrow> Inr (Some m, 0.9))
      else if HAS_FILETYPE w then
        (case filetype_guess w of Inl e \<Rightarrow> Inl e | Inr m \<Rightarrow> Inr (m, 0.8))
      else
        (case mimetypes_guess_type w of Inl e \<Rightarrow> Inl e | Inr m \<Rightarrow> Inr (m, 0.6)))"

text \<open>The body of the \<^verbatim>\<open>try\<close> of \<^verbatim>\<open>_detect_by_mime\<close>. An empty string is
  false in \<^verbatim>\<open>if detected_ext\<close> and in \<^verbatim>\<open>mime_type or "unknown"\<close>; the model
  validation of \<^verbatim>\<open>DetectionResult\<close> rejects \<^verbatim>\<open>None\<close> for the string field
  \<^verbatim>\<open>mime_type\<close>.\<close>

definition detect_by_mime_try :: "DocumentService \<Rightarrow> world \<Rightarrow> exception + DetectionResult" where
  "detect_by_mime_try ds w =
     (case sniff w of
        Inl e \<Rightarrow> Inl e
      | Inr (mime, conf) \<Rightarrow>
          (case get_extension_from_mime ds mime of
             Some detected_ext \<Rightarrow>
               (if detected_ext \<noteq> [] then
                  (case get_document_type ds detected_ext of
                     None \<Rightarrow> Inl (none_has_no_attribute ''description'')
                   | Some doc_type \<Rightarrow>
                       (case mime of
                          None \<Rightarrow> Inl (ValidationError ''mime_type'')
                        | Some m \<Rightarrow>
                            Inr \<lparr>method_dr = ''mime_content'', detected_type = detected_ext,
                                 mime_type = m,
                                 description = description_dt doc_type,
                                 confidence = conf, is_supported = True,
                                 resolution = None, extension_match = None\<rparr>))
                else
                  Inr \<lparr>method_dr = ''mime_content'', detected_type = ''unknown'',
                       mime_type = (case mime of None \<Rightarrow> ''unknown''
                                    | Some m \<Rightarrow> if m = [] then ''unknown'' else m),
                       description = ''Type non reconnu par type'',
                       confidence = 0.2, is_supported = False,
                       resolution = None, extension_match = None\<rparr>)
           | None \<Rightarrow>
               Inr \<lparr>method_dr = ''mime_content'', detected_type = ''unknown'',
                    mime_type = (case mime of None \<Rightarrow> ''unknown''
                                 | Some m \<Rightarrow> if m = [] then ''unknown'' else m),
                    description = ''Type non reconnu par type'',
                    confidence = 0.2, is_supported = False,
                    resolution = None, extension_match = None\<rparr>))"

text \<open>\<^verbatim>\<open>_detect_by_mime\<close>: whatever the body raises becomes the classification of
  a failed sniffing. The result is again a sum, as for every step, and is never
  \<open>Inl\<close>.\<close>

definition detect_by_mime :: "DocumentService \<Rightarrow> world \<Rightarrow> exception + DetectionResult" where
  "detect_by_mime ds w =
     (case detect_by_mime_try ds w of
        Inr r \<Rightarrow> Inr r
      | Inl e \<Rightarrow>
          Inr \<lparr>method_dr = ''mime_content'', detected_type = ''unknown'',
               mime_type = ''error'',
               description = ''Erreur d'' @ e_acute @ ''tection MIME: '' @ str_exception e,
               confidence = 0.0, is_supported = False,
               resolution = None, extension_match = None\<rparr>)"

text \<open>\<^verbatim>\<open>_resolve_detection_conflicts\<close>. \<^verbatim>\<open>model_copy()\<close> followed by the
  assignments is a record update.\<close>

definition resolve_detection_conflicts :: "DetectionResult \<Rightarrow> DetectionResult \<Rightarrow> DetectionResult" where
  "resolve_detection_conflicts ext_detection mime_detection =
     (if 0.7 < confidence mime_detection \<and> mime_type mime_detection \<noteq> ''error'' then
        (let ext_type = detected_type ext_detection;
             mime_ty = detected_type mime_detection;
             (conf, res) =
               (if ext_type = mime_ty then
                  (min 1.0 (confidence ext_detection + confidence mime_detection),
                   ''coherent'')
                else (confidence mime_detection, ''mime_priority''))
         in mime_detection\<lparr>confidence := conf, resolution := Some res,
              extension_match := Some (ext_type = mime_ty)\<rparr>)
      else ext_detection\<lparr>resolution := Some ''extension_fallback''\<rparr>)"

text \<open>\<^verbatim>\<open>_generate_processing_info\<close>.\<close>

definition generate_processing_info ::
  "DocumentService \<Rightarrow> DetectionResult \<Rightarrow> FileInfo \<Rightarrow> exception + ProcessingInfo" where
  "generate_processing_info ds det fi =
     (let dtype = detected_type det; supp = is_supported det
      in if supp \<and> ds_is_supported ds dtype then
           (case get_document_type ds dtype of
              None \<Rightarrow> Inl (none_has_no_attribute ''complexity'')
            | Some doc_type \<Rightarrow>
                (let size_complexity = estimate_size_complexity (size_mb fi);
                     overall_complexity =
                       max_complexity (complexity_value (complexity_dt doc_type)) size_complexity
                 in Inr \<lparr>can_process = True,
                         recommended_parser = Some (parser_module doc_type),
                         complexity = Some overall_complexity,
                         estimated_time =
                           Some (estimate_processing_time overall_complexity (size_mb fi)),
                         memory_requirement = Some (estimate_memory_usage dtype (size_mb fi)),
                         reason = None\<rparr>))
         else
           Inr \<lparr>can_process = False, recommended_parser = None, complexity = None,
                estimated_time = None, memory_requirement = None,
                reason = Some (''Type de fichier non support'' @ e_acute)\<rparr>)"

subsection \<open>file\_detector.py: the orchestrator\<close>

text \<open>The private methods \<^verbatim>\<open>detect_document_type\<close> calls, as the entries of the
  trace of a run.\<close>

datatype step =
    ExtractFileInfo
  | DetectByExtension
  | DetectByMime
  | ResolveDetectionConflicts
  | GenerateProcessingInfo

text \<open>The body of the \<^verbatim>\<open>try\<close> of \<^verbatim>\<open>detect_document_type\<close>: the five steps in
  sequence, the first exception ending the run. The second component lists the steps
  that were called, in order.\<close>

definition detect_try ::
  "DocumentService \<Rightarrow> world \<Rightarrow> (exception + DocumentDetectionResult) \<times> step list" where
  "detect_try ds w =
     (case extract_file_info w of
        Inl e \<Rightarrow> (Inl e, [ExtractFileInfo])
      | Inr fi \<Rightarrow>
     (case detect_by_extension ds w of
        Inl e \<Rightarrow> (Inl e, [ExtractFileInfo, DetectByExtension])
      | Inr extension_detection \<Rightarrow>
     (case detect_by_mime ds w of
        Inl e \<Rightarrow> (Inl e, [ExtractFileInfo, DetectByExtension, DetectByMime])
      | Inr mime_detection \<Rightarrow>
     (let final_detection = resolve_detection_conflicts extension_detection mime_detection
      in case generate_processing_info ds final_detection fi of
           Inl e \<Rightarrow>
             (Inl e, [ExtractFileInfo, DetectByExtension, DetectByMime,
                      ResolveDetectionConflicts, GenerateProcessingInfo])
         | Inr processing_info \<Rightarrow>
             (Inr \<lparr>file_info = Some fi, detection = Some final_detection,
                   processing = Some processing_info, status = ''success'',
                   error = None\<rparr>,
              [ExtractFileInfo, DetectByExtension, DetectByMime,
               ResolveDetectionConflicts, GenerateProcessingInfo])))))"

text \<open>\<^verbatim>\<open>detect_document_type\<close>: the existence check, which stands before the
  \<^verbatim>\<open>try\<close>, then the guarded body.\<close>

definition detect_document_type ::
  "DocumentService \<Rightarrow> world \<Rightarrow> string \<Rightarrow> (exception + DocumentDetectionResult) \<times> step list" where
  "detect_document_type ds w file_path =
     (case path_exists w of
        Inl e \<Rightarrow> (Inl e, [])
      | Inr ex \<Rightarrow>
          (if \<not> ex then
             (Inr \<lparr>file_info = None, detection = None, processing = None,
                   status = ''error'',
                   error = Some (''Fichier non trouv'' @ e_acute @ '':'' @ file_path)\<rparr>, [])
           else
             (case detect_try ds w of
                (Inr r, steps) \<Rightarrow> (Inr r, steps)
              | (Inl e, steps) \<Rightarrow>
                  (Inr \<lparr>file_info = None, detection = None, processing = None,
                        status = ''error'',
                        error = Some (''Erreur lors de l'' @ [CHR 0x27] @ ''analyse: '' @
                                      str_exception e)\<rparr>, steps))))"

subsection \<open>The specification's ordinal scale\<close>

text \<open>The specification's words for the overall complexity, to be compared with
  \<open>max_complexity\<close> and \<open>estimate_size_complexity\<close>: the scale \<open>LOW < MEDIUM < HIGH\<close>,
  the higher of two levels with a tie keeping the first (the catalog's), and the level
  derived from the size in megabytes.\<close>

fun ordinal_spec :: "ComplexityLevel \<Rightarrow> nat" where
  "ordinal_spec LOW = 1"
| "ordinal_spec MEDIUM = 2"
| "ordinal_spec HIGH = 3"

definition ordinal_max_spec :: "ComplexityLevel \<Rightarrow> ComplexityLevel \<Rightarrow> ComplexityLevel" where
  "ordinal_max_spec catalog_level size_level =
     (if ordinal_spec catalog_level < ordinal_spec size_level then size_level
      else catalog_level)"

definition size_complexity_spec :: "real \<Rightarrow> ComplexityLevel" where
  "size_complexity_spec mb = (if mb < 5 then LOW else if mb < 20 then MEDIUM else HIGH)"

subsection \<open>Example inputs\<close>

text \<open>A plain-text file of 20971 bytes named \<^verbatim>\<open>notes.txt\<close>, sniffed by python-magic as
  \<^verbatim>\<open>text/plain\<close>, and the \<^verbatim>\<open>FileInfo\<close> the probe derives from it.\<close>

definition world_txt :: world where
  "world_txt =
     \<lparr>path_exists = Inr True, stat_st_size = Inr 20971,
      path_resolve = Inr ''/data/notes.txt'', path_name = ''notes.txt'',
      path_stem = ''notes'', path_suffix = ''.txt'',
      HAS_MAGIC = True, HAS_FILETYPE = False,
      magic_from_file = Inr ''text/plain'', filetype_guess = Inr None,
      mimetypes_guess_type = Inr None\<rparr>"

definition file_info_txt :: FileInfo where
  "file_info_txt =
     \<lparr>path = ''/data/notes.txt'', name = ''notes.txt'', stem = ''notes'',
      extension = ''.txt'', size_bytes = 20971, size_mb = 0.02, size_category = ''small''\<rparr>"

text \<open>The same file as \<^verbatim>\<open>.txt\<close>, \<^verbatim>\<open>.docx\<close> and \<^verbatim>\<open>.xyz\<close> under the extension
  classifier over the default catalog, and as \<^verbatim>\<open>text/plain\<close> under the content
  classifier with the confidence of the sniffing strategy.\<close>

definition ext_txt :: DetectionResult where
  "ext_txt =
     \<lparr>method_dr = ''extension'', detected_type = ''.txt'', mime_type = ''text/plain'',
      description = ''Plain Text File'', confidence = 0.7, is_supported = True,
      resolution = None, extension_match = None\<rparr>"

definition ext_docx :: DetectionResult where
  "ext_docx =
     \<lparr>method_dr = ''extension'', detected_type = ''.docx'',
      mime_type = ''application/vnd.openxmlformats-officedocument.wordprocessingml.document'',
      description = ''Microsoft Word Document'', confidence = 0.7, is_supported = True,
      resolution = None, extension_match = None\<rparr>"

definition ext_xyz :: DetectionResult where
  "ext_xyz =
     \<lparr>method_dr = ''extension'', detected_type = ''.xyz'', mime_type = ''unknown'',
      description = ''Type non support'' @ e_acute, confidence = 0.3, is_supported = False,
      resolution = None, extension_match = None\<rparr>"

definition mime_txt :: "real \<Rightarrow> DetectionResult" where
  "mime_txt conf =
     \<lparr>method_dr = ''mime_content'', detected_type = ''.txt'', mime_type = ''text/plain'',
      description = ''Plain Text File'', confidence = conf, is_supported = True,
      resolution = None, extension_match = None\<rparr>"

text \<open>Three variants of the plain-text file: the entry is missing; the existence
  check itself fails, a directory of the path denying search permission; python-magic
  cannot read the file.\<close>

definition world_missing :: world where
  "world_missing = world_txt\<lparr>path_exists := Inr False\<rparr>"

definition world_denied :: world where
  "world_denied = world_txt\<lparr>path_exists := Inl (OSError ''[Errno 13] Permission denied'')\<rparr>"

definition world_unreadable :: world where
  "world_unreadable =
     world_txt\<lparr>magic_from_file := Inl (OSError ''[Errno 13] Permission denied'')\<rparr>"

text \<open>A path of one component of 300 letters, longer than a file name may be: no
  entry can have this name, and the \<^verbatim>\<open>stat\<close> behind the existence check fails with
  \<^verbatim>\<open>ENAMETOOLONG\<close>, which \<^verbatim>\<open>Path.exists\<close> re-raises.\<close>

definition long_name :: string where
  "long_name = replicate 300 (CHR ''a'')"

definition world_name_too_long :: world where
  "world_name_too_long =
     \<lparr>path_exists = Inl (OSError ''[Errno 36] File name too long''),
      stat_st_size = Inl (OSError ''[Errno 36] File name too long''),
      path_resolve = Inr (''/data/'' @ long_name), path_name = long_name,
      path_stem = long_name, path_suffix = [],
      HAS_MAGIC = True, HAS_FILETYPE = False,
      magic_from_file = Inl (OSError ''[Errno 36] File name too long''),
      filetype_guess = Inr None, mimetypes_guess_type = Inr None\<rparr>"

text \<open>The file exists, and the \<^verbatim>\<open>stat\<close> of the probe fails.\<close>

definition world_stat_denied :: world where
  "world_stat_denied =
     world_txt\<lparr>stat_st_size := Inl (OSError ''[Errno 13] Permission denied'')\<rparr>"

text \<open>The catalog's descriptor of \<^verbatim>\<open>.txt\<close>.\<close>

definition doc_type_txt :: DocumentType where
  "doc_type_txt =
     \<lparr>extension_dt = ''.txt'', mime_type_dt = ''text/plain'',
      description_dt = ''Plain Text File'',
      parser_module = ''built-in'', complexity_dt = LOW\<rparr>"

section \<open>Properties\<close>

subsection \<open>The default catalog and the example inputs\<close>

lemma lower_txt: "lower ''.txt'' = ''.txt''"
  by (simp add: lower_def lower_char_def)

lemma lower_xyz: "lower ''.xyz'' = ''.xyz''"
  by (simp add: lower_def lower_char_def)

lemma supported_txt: "supported_types DocumentService_init ''.txt'' = Some doc_type_txt"
  by (simp add: DocumentService_init_def get_supported_types_def SUPPORTED_EXTENSIONS_def
        doc_type_txt_def)

lemma supported_xyz: "supported_types DocumentService_init ''.xyz'' = None"
  by (simp add: DocumentService_init_def get_supported_types_def SUPPORTED_EXTENSIONS_def)

lemma mime_text_plain: "mime_to_extension DocumentService_init ''text/plain'' = Some ''.txt''"
  by (simp add: DocumentService_init_def get_mime_to_extension_mapping_def
        SUPPORTED_EXTENSIONS_def)

lemma ext_world_txt: "detect_by_extension DocumentService_init world_txt = Inr ext_txt"
  by (simp add: detect_by_extension_def world_txt_def Let_def ds_is_supported_def
        get_document_type_def lower_txt supported_txt ext_txt_def doc_type_txt_def)

lemma mime_world_txt: "detect_by_mime DocumentService_init world_txt = Inr (mime_txt 0.9)"
  by (simp add: detect_by_mime_def detect_by_mime_try_def sniff_def world_txt_def
        get_extension_from_mime_def mime_text_plain get_document_type_def lower_txt
        supported_txt mime_txt_def doc_type_txt_def)

lemma round2_txt: "round2 (20971 / (1024 * 1024)) = 0.02"
proof -
  have "\<lfloor>(20971 / (1024 * 1024) * 100 :: real)\<rfloor> = 1"
    by (simp add: floor_eq_iff)
  then show ?thesis
    by (simp add: round2_def Let_def)
qed

lemma info_world_txt: "extract_file_info world_txt = Inr file_info_txt"
  using round2_txt
  by (simp add: extract_file_info_def world_txt_def file_info_txt_def lower_txt
        categorize_file_size_def)

subsection \<open>What the classifiers can return\<close>

lemma detect_by_extension_total: "\<exists>e. detect_by_extension ds w = Inr e"
  by (auto simp: detect_by_extension_def ds_is_supported_def get_document_type_def Let_def
           split: option.splits)

lemma detect_by_extension_Inr:
  assumes "detect_by_extension ds w = Inr e"
  shows "detected_type e = lower (path_suffix w)"
    and "resolution e = None"
    and "is_supported e = ds_is_supported ds (detected_type e)"
    and "confidence e = (if ds_is_supported ds (detected_type e) then 0.7 else 0.3)"
  using assms
  by (auto simp: detect_by_extension_def Let_def split: if_splits option.splits)

lemma sniff_confidence:
  assumes "sniff w = Inr (mime, conf)"
  shows "conf = 0.9 \<or> conf = 0.8 \<or> conf = 0.6"
  using assms by (auto simp: sniff_def split: if_splits sum.splits)

lemma detect_by_mime_try_Inr:
  assumes "detect_by_mime_try ds w = Inr m"
  shows "(is_supported m \<and> detected_type m \<noteq> [] \<and> ds_is_supported ds (detected_type m)
            \<and> (confidence m = 0.9 \<or> confidence m = 0.8 \<or> confidence m = 0.6))
         \<or> (\<not> is_supported m \<and> detected_type m = ''unknown'' \<and> confidence m = 0.2)"
proof -
  from assms obtain mime conf where s: "sniff w = Inr (mime, conf)"
    by (auto simp: detect_by_mime_try_def split: sum.splits)
  note c = sniff_confidence [OF s]
  from assms s c show ?thesis
    by (auto simp: detect_by_mime_try_def ds_is_supported_def get_document_type_def
             split: option.splits if_splits)
qed

lemma sniff_fault_propagates:
  assumes "sniff w = Inl e"
  shows "detect_by_mime_try ds w = Inl e"
  using assms by (simp add: detect_by_mime_try_def)

lemma detect_by_mime_total: "\<exists>m. detect_by_mime ds w = Inr m"
  by (auto simp: detect_by_mime_def split: sum.splits)

lemma detect_by_mime_confident:
  assumes "detect_by_mime ds w = Inr m" and "0.7 < confidence m"
  shows "is_supported m" and "ds_is_supported ds (detected_type m)"
    and "confidence m = 0.9 \<or> confidence m = 0.8"
proof -
  from assms have t: "detect_by_mime_try ds w = Inr m"
    by (auto simp: detect_by_mime_def split: sum.splits)
  from detect_by_mime_try_Inr [OF t] assms(2)
  show "is_supported m" and "ds_is_supported ds (detected_type m)"
    and "confidence m = 0.9 \<or> confidence m = 0.8"
    by auto
qed

lemma generate_processing_info_total: "\<exists>p. generate_processing_info ds det fi = Inr p"
  by (auto simp: generate_processing_info_def Let_def ds_is_supported_def
        get_document_type_def split: option.splits)

subsection \<open>Size buckets\<close>

text \<open>
  Claim C7. For every file size in bytes the size bucket is a step function with cut
  points at exactly 1, 10 and 50 megabytes (of \<open>1024 * 1024\<close> bytes): below 1 MB the
  bucket is "small", below 10 MB "medium", below 50 MB "large", and from 50 MB on
  "very\_large"; exactly 1 MB is "medium" and exactly 50 MB is "very\_large".
\<close>

theorem categorize_file_size_steps:
  "categorize_file_size sz =
     (if sz < 1 * (1024 * 1024) then ''small''
      else if sz < 10 * (1024 * 1024) then ''medium''
      else if sz < 50 * (1024 * 1024) then ''large''
      else ''very_large'')
   \<and> categorize_file_size (1 * (1024 * 1024)) = ''medium''
   \<and> categorize_file_size (50 * (1024 * 1024)) = ''very_large''"
  by (simp add: categorize_file_size_def Let_def)

subsection \<open>The conflict resolver\<close>

text \<open>
  Claim C1. Whenever the content classification has a confidence of at most 0.7, or
  its media identifier is the sentinel "error", the resolver returns the extension
  classification unchanged but for \<open>resolution = "extension_fallback"\<close>. Nothing is
  assumed about the detected types: the gate comes before the comparison, so a content
  signal of low confidence neither corroborates nor overrides, also when its detected
  type is the extension's.
\<close>

theorem resolve_extension_fallback:
  assumes "confidence mime_detection \<le> 0.7 \<or> mime_type mime_detection = ''error''"
  shows "resolve_detection_conflicts ext_detection mime_detection =
           ext_detection\<lparr>resolution := Some ''extension_fallback''\<rparr>"
  using assms by (auto simp: resolve_detection_conflicts_def)

text \<open>The witness: the types agree, the content confidence is 0.6, and the result
  is the extension classification with its confidence of 0.7, not boosted.\<close>

theorem resolve_extension_fallback_witness:
  "confidence (mime_txt 0.6) \<le> 0.7
   \<and> detected_type ext_txt = detected_type (mime_txt 0.6)
   \<and> resolve_detection_conflicts ext_txt (mime_txt 0.6) =
         ext_txt\<lparr>resolution := Some ''extension_fallback''\<rparr>
   \<and> confidence (resolve_detection_conflicts ext_txt (mime_txt 0.6)) = 0.7"
  using resolve_extension_fallback [of "mime_txt 0.6" ext_txt]
  by (simp add: mime_txt_def ext_txt_def)

text \<open>The coherent branch on any two classifications: the saturating sum of the two
  confidences.\<close>

lemma resolve_coherent_sum:
  assumes "0.7 < confidence m" and "mime_type m \<noteq> ''error''"
    and "detected_type e = detected_type m"
  shows "resolve_detection_conflicts e m =
           m\<lparr>confidence := min 1 (confidence e + confidence m),
             resolution := Some ''coherent'', extension_match := Some True\<rparr>"
  using assms by (simp add: resolve_detection_conflicts_def Let_def)

text \<open>An extension classification that agrees with a confident content
  classification is a supported one, with confidence 0.7: the content classifier
  returns a type with a confidence above 0.2 only when the catalog has it.\<close>

lemma agreeing_extension_confidence:
  assumes "detect_by_extension ds w = Inr e"
    and "detect_by_mime ds w' = Inr m"
    and "0.7 < confidence m"
    and "detected_type e = detected_type m"
  shows "confidence e = 0.7"
proof -
  have "ds_is_supported ds (detected_type e)"
    using detect_by_mime_confident(2) [OF assms(2,3)] assms(4) by simp
  then show ?thesis
    using detect_by_extension_Inr(4) [OF assms(1)] by simp
qed

text \<open>
  Claim C2. For every output \<open>e\<close> of the extension classifier and every output \<open>m\<close>
  of the content classifier (over the same catalog, in any state) with the confidence
  of \<open>m\<close> above 0.7, its media identifier not "error" and the two detected types equal,
  the resolver returns \<open>m\<close> with \<open>resolution = "coherent"\<close>, \<open>extension_match = true\<close>
  and the confidence \<open>min 1 (0.7 + confidence m)\<close>; this is \<open>min 1\<close> of the sum of the two
  confidences, the agreeing extension classification having confidence 0.7.
\<close>

theorem resolve_coherent:
  assumes "detect_by_extension ds w = Inr e"
    and "detect_by_mime ds w' = Inr m"
    and "0.7 < confidence m" and "mime_type m \<noteq> ''error''"
    and "detected_type e = detected_type m"
  shows "resolve_detection_conflicts e m =
           m\<lparr>confidence := min 1 (0.7 + confidence m),
             resolution := Some ''coherent'', extension_match := Some True\<rparr>
         \<and> confidence e = 0.7
         \<and> min 1 (0.7 + confidence m) = min 1 (confidence e + confidence m)"
proof -
  have c: "confidence e = 0.7"
    by (rule agreeing_extension_confidence [OF assms(1,2,3,5)])
  show ?thesis
    using resolve_coherent_sum [OF assms(3,4,5)] c by simp
qed

theorem resolve_coherent_witness:
  "detect_by_extension DocumentService_init world_txt = Inr ext_txt
   \<and> detect_by_mime DocumentService_init world_txt = Inr (mime_txt 0.9)
   \<and> resolve_detection_conflicts ext_txt (mime_txt 0.9) =
       (mime_txt 0.9)\<lparr>confidence := 1, resolution := Some ''coherent'',
                      extension_match := Some True\<rparr>
   \<and> confidence ext_txt = 0.7"
  using resolve_coherent [OF ext_world_txt mime_world_txt] ext_world_txt mime_world_txt
  by (simp add: mime_txt_def ext_txt_def)

text \<open>
  Claim C3, as the code has it. For every pair of classifications with the content
  confidence above 0.7, its media identifier not "error" and the two detected types
  different, the resolver returns the content classification with
  \<open>extension_match = false\<close> and its confidence unchanged; the resolution tag it sets
  is the string "mime\_priority".
\<close>

theorem resolve_mime_priority:
  assumes "0.7 < confidence m" and "mime_type m \<noteq> ''error''"
    and "detected_type e \<noteq> detected_type m"
  shows "resolve_detection_conflicts e m =
           m\<lparr>resolution := Some ''mime_priority'', extension_match := Some False\<rparr>
         \<and> confidence (resolve_detection_conflicts e m) = confidence m"
  using assms by (simp add: resolve_detection_conflicts_def Let_def)

text \<open>The witness is the renamed file of the specification's scenario:
  \<^verbatim>\<open>report.docx\<close> whose bytes are plain text.\<close>

theorem resolve_mime_priority_witness:
  "0.7 < confidence (mime_txt 0.9) \<and> mime_type (mime_txt 0.9) \<noteq> ''error''
   \<and> detected_type ext_docx \<noteq> detected_type (mime_txt 0.9)
   \<and> resolve_detection_conflicts ext_docx (mime_txt 0.9) =
       (mime_txt 0.9)\<lparr>resolution := Some ''mime_priority'', extension_match := Some False\<rparr>
   \<and> confidence (resolve_detection_conflicts ext_docx (mime_txt 0.9)) = 0.9"
  using resolve_mime_priority [of "mime_txt 0.9" ext_docx]
  by (simp add: mime_txt_def ext_docx_def)

text \<open>The tag is not the "content\_priority" of the specification: at the same input
  the premises of the claim hold and the resolution differs from that string.\<close>

theorem resolve_content_priority_counterexample:
  "0.7 < confidence (mime_txt 0.9) \<and> mime_type (mime_txt 0.9) \<noteq> ''error''
   \<and> detected_type ext_docx \<noteq> detected_type (mime_txt 0.9)
   \<and> resolution (resolve_detection_conflicts ext_docx (mime_txt 0.9)) = Some ''mime_priority''
   \<and> resolution (resolve_detection_conflicts ext_docx (mime_txt 0.9)) \<noteq>
       Some ''content_priority''"
  by (simp add: resolve_detection_conflicts_def Let_def mime_txt_def ext_docx_def)

text \<open>
  Claim C10. When the resolver, applied to an output of the extension classifier and
  an output of the content classifier over the default catalog, takes the coherent
  branch, the final confidence is exactly 1: the extension classification then has
  confidence 0.7 and the content classification 0.8 or 0.9.
\<close>

theorem coherent_is_certain:
  assumes "detect_by_extension DocumentService_init w = Inr e"
    and "detect_by_mime DocumentService_init w' = Inr m"
    and "resolution (resolve_detection_conflicts e m) = Some ''coherent''"
  shows "confidence (resolve_detection_conflicts e m) = 1
         \<and> confidence e = 0.7 \<and> (confidence m = 0.8 \<or> confidence m = 0.9)"
proof -
  have gate: "0.7 < confidence m \<and> mime_type m \<noteq> ''error''"
    using assms(3) by (auto simp: resolve_detection_conflicts_def split: if_splits)
  have eq: "detected_type e = detected_type m"
    using assms(3) gate by (auto simp: resolve_detection_conflicts_def Let_def split: if_splits)
  have c: "confidence e = 0.7"
    using agreeing_extension_confidence [OF assms(1,2)] gate eq by simp
  have d: "confidence m = 0.9 \<or> confidence m = 0.8"
    using detect_by_mime_confident(3) [OF assms(2)] gate by simp
  have "confidence (resolve_detection_conflicts e m) = 1"
    using d resolve_coherent_sum [of m e] gate eq c by auto
  with c d show ?thesis by auto
qed

theorem coherent_is_certain_witness:
  "detect_by_extension DocumentService_init world_txt = Inr ext_txt
   \<and> detect_by_mime DocumentService_init world_txt = Inr (mime_txt 0.9)
   \<and> resolution (resolve_detection_conflicts ext_txt (mime_txt 0.9)) = Some ''coherent''
   \<and> confidence (resolve_detection_conflicts ext_txt (mime_txt 0.9)) = 1"
proof -
  have r: "resolution (resolve_detection_conflicts ext_txt (mime_txt 0.9)) = Some ''coherent''"
    by (simp add: resolve_detection_conflicts_def Let_def mime_txt_def ext_txt_def)
  show ?thesis
    using coherent_is_certain [OF ext_world_txt mime_world_txt r] ext_world_txt mime_world_txt r
    by simp
qed

subsection \<open>The processing estimator\<close>

lemma estimate_size_complexity_spec:
  "estimate_size_complexity mb = complexity_value (size_complexity_spec mb)"
  by (simp add: estimate_size_complexity_def size_complexity_spec_def)

lemma max_complexity_spec:
  "max_complexity (complexity_value a) (complexity_value b) =
     complexity_value (ordinal_max_spec a b)"
  by (cases a; cases b) (simp_all add: max_complexity_def order_get_def ordinal_max_spec_def)

lemma ordinal_max_spec_is_max:
  "ordinal_spec (ordinal_max_spec a b) = max (ordinal_spec a) (ordinal_spec b)"
  by (simp add: ordinal_max_spec_def)

text \<open>
  Claim C8, as the code has it. For every classification that is unsupported (its
  flag \<open>is_supported\<close> is false, or the catalog accessor does not know its detected
  type), the estimator returns \<open>can_process = false\<close> with the reason
  "Type de fichier non supporte" (its last letter with an acute accent) and every
  other field absent; for every supported one it returns \<open>can_process = true\<close> with
  the parser of the catalog's descriptor of the detected type, and no reason. The
  accessor looks a key up in lower case.
\<close>

theorem processing_info_by_support:
  "(\<not> is_supported det \<or> \<not> ds_is_supported ds (detected_type det) \<longrightarrow>
      generate_processing_info ds det fi =
        Inr \<lparr>can_process = False, recommended_parser = None, complexity = None,
             estimated_time = None, memory_requirement = None,
             reason = Some (''Type de fichier non support'' @ e_acute)\<rparr>)
   \<and> (is_supported det \<and> ds_is_supported ds (detected_type det) \<longrightarrow>
      (\<exists>doc_type p.
          get_document_type ds (detected_type det) = Some doc_type
        \<and> generate_processing_info ds det fi = Inr p
        \<and> can_process p
        \<and> recommended_parser p = Some (parser_module doc_type)
        \<and> reason p = None))"
  by (auto simp: generate_processing_info_def Let_def ds_is_supported_def
        get_document_type_def)

text \<open>The witness: the unsupported \<^verbatim>\<open>.xyz\<close> of the specification's scenario, and the
  coherent plain-text file, whose parser is the catalog's "built-in".\<close>

theorem processing_info_by_support_witness:
  "\<not> is_supported ext_xyz
   \<and> generate_processing_info DocumentService_init ext_xyz file_info_txt =
        Inr \<lparr>can_process = False, recommended_parser = None, complexity = None,
             estimated_time = None, memory_requirement = None,
             reason = Some (''Type de fichier non support'' @ e_acute)\<rparr>
   \<and> is_supported (mime_txt 1) \<and> ds_is_supported DocumentService_init (detected_type (mime_txt 1))
   \<and> (\<exists>p. generate_processing_info DocumentService_init (mime_txt 1) file_info_txt = Inr p
          \<and> can_process p \<and> recommended_parser p = Some ''built-in'' \<and> reason p = None)"
proof -
  have a: "\<not> is_supported ext_xyz"
    by (simp add: ext_xyz_def)
  have b: "is_supported (mime_txt 1) \<and> ds_is_supported DocumentService_init (detected_type (mime_txt 1))"
    by (simp add: mime_txt_def ds_is_supported_def lower_txt supported_txt)
  have g: "get_document_type DocumentService_init (detected_type (mime_txt 1)) = Some doc_type_txt"
    by (simp add: mime_txt_def get_document_type_def lower_txt supported_txt)
  have p: "parser_module doc_type_txt = ''built-in''"
    by (simp add: doc_type_txt_def)
  show ?thesis
    using processing_info_by_support [of ext_xyz DocumentService_init file_info_txt]
      processing_info_by_support [of "mime_txt 1" DocumentService_init file_info_txt]
      a b g p
    by auto
qed

text \<open>The reason is not the "unsupported type" of the specification: for the
  unsupported \<^verbatim>\<open>.xyz\<close> the estimator answers with its own message.\<close>

theorem processing_info_reason_counterexample:
  "\<not> is_supported ext_xyz
   \<and> generate_processing_info DocumentService_init ext_xyz file_info_txt =
        Inr \<lparr>can_process = False, recommended_parser = None, complexity = None,
             estimated_time = None, memory_requirement = None,
             reason = Some (''Type de fichier non support'' @ e_acute)\<rparr>
   \<and> Some (''Type de fichier non support'' @ e_acute) \<noteq> Some ''unsupported type''"
  by (simp add: generate_processing_info_def Let_def ext_xyz_def)

text \<open>
  Claim C9. For every supported classification and every file size, the overall
  complexity of the estimate is the value of the ordinal maximum, on the scale
  \<open>LOW < MEDIUM < HIGH\<close>, of the intrinsic complexity of the catalog's descriptor and of
  the complexity derived from the size in megabytes (below 5 LOW, below 20 MEDIUM,
  otherwise HIGH), a tie keeping the catalog's value.
\<close>

theorem overall_complexity_is_ordinal_max:
  assumes "is_supported det"
    and "get_document_type ds (detected_type det) = Some doc_type"
  shows "\<exists>p. generate_processing_info ds det fi = Inr p
           \<and> complexity p =
               Some (complexity_value
                 (ordinal_max_spec (complexity_dt doc_type) (size_complexity_spec (size_mb fi))))
           \<and> ordinal_spec
               (ordinal_max_spec (complexity_dt doc_type) (size_complexity_spec (size_mb fi))) =
             max (ordinal_spec (complexity_dt doc_type))
                 (ordinal_spec (size_complexity_spec (size_mb fi)))"
  using assms
  by (simp add: generate_processing_info_def Let_def ds_is_supported_def get_document_type_def
        estimate_size_complexity_spec max_complexity_spec ordinal_max_spec_is_max)

text \<open>The witness: a plain-text file (intrinsic complexity LOW) of 7 MB has the
  overall complexity "medium", of the size.\<close>

theorem overall_complexity_is_ordinal_max_witness:
  "is_supported (mime_txt 1)
   \<and> get_document_type DocumentService_init (detected_type (mime_txt 1)) = Some doc_type_txt
   \<and> (\<exists>p. generate_processing_info DocumentService_init (mime_txt 1)
             (file_info_txt\<lparr>size_mb := 7\<rparr>) = Inr p
          \<and> complexity p = Some ''medium'')"
proof -
  have a: "is_supported (mime_txt 1)"
    by (simp add: mime_txt_def)
  have g: "get_document_type DocumentService_init (detected_type (mime_txt 1)) = Some doc_type_txt"
    by (simp add: mime_txt_def get_document_type_def lower_txt supported_txt)
  have v: "complexity_value
             (ordinal_max_spec (complexity_dt doc_type_txt)
                (size_complexity_spec (size_mb (file_info_txt\<lparr>size_mb := 7\<rparr>)))) = ''medium''"
    by (simp add: ordinal_max_spec_def size_complexity_spec_def doc_type_txt_def)
  show ?thesis
    using overall_complexity_is_ordinal_max [OF a g, of "file_info_txt\<lparr>size_mb := 7\<rparr>"] a g v
    by auto
qed

subsection \<open>The orchestrator\<close>

lemma detect_try_Inr:
  assumes "detect_try ds w = (Inr r, steps)"
  shows "status r = ''success'' \<and> file_info r \<noteq> None \<and> detection r \<noteq> None
         \<and> processing r \<noteq> None \<and> error r = None"
  using assms
  by (auto simp: detect_try_def Let_def split: sum.splits)

text \<open>Once the existence check has answered, the caller receives an outcome: a
  success with the three parts together, or an error with none of them and a
  message.\<close>

lemma detect_guarded:
  assumes "path_exists w = Inr b"
  shows "\<exists>r steps. detect_document_type ds w file_path = (Inr r, steps)
           \<and> ((status r = ''success'' \<and> file_info r \<noteq> None \<and> detection r \<noteq> None
                 \<and> processing r \<noteq> None \<and> error r = None)
              \<or> (status r = ''error'' \<and> file_info r = None \<and> detection r = None
                 \<and> processing r = None \<and> error r \<noteq> None))"
proof (cases b)
  case False
  with assms show ?thesis
    by (simp add: detect_document_type_def)
next
  case True
  obtain res steps where t: "detect_try ds w = (res, steps)"
    by (cases "detect_try ds w")
  show ?thesis
  proof (cases res)
    case (Inl e)
    with assms True t show ?thesis
      by (simp add: detect_document_type_def)
  next
    case (Inr r)
    with t detect_try_Inr [of ds w r steps] assms True show ?thesis
      by (simp add: detect_document_type_def)
  qed
qed

text \<open>When the existence check answers that there is no such entry, the detector
  returns an outcome with status "error", the message "Fichier non trouve:" (with its
  acute accent) followed by the path, and no file information, classification or
  estimate; no step of the pipeline is called.\<close>

lemma detect_missing_path:
  assumes "path_exists w = Inr False"
  shows "detect_document_type ds w file_path =
           (Inr \<lparr>file_info = None, detection = None, processing = None,
                 status = ''error'',
                 error = Some (''Fichier non trouv'' @ e_acute @ '':'' @ file_path)\<rparr>,
            [])"
  using assms by (simp add: detect_document_type_def)

lemma detect_missing_path_example:
  "path_exists world_missing = Inr False
   \<and> detect_document_type DocumentService_init world_missing ''fichier_inexistant.docx'' =
       (Inr \<lparr>file_info = None, detection = None, processing = None,
             status = ''error'',
             error = Some (''Fichier non trouv'' @ e_acute @ '':fichier_inexistant.docx'')\<rparr>,
        [])"
proof -
  have m: "path_exists world_missing = Inr False"
    by (simp add: world_missing_def world_txt_def)
  show ?thesis
    using detect_missing_path [OF m, of DocumentService_init "''fichier_inexistant.docx''"] m
    by simp
qed

text \<open>
  Claim C4 at the input where it fails. A path that names no entry does not always
  get the answer \<^verbatim>\<open>False\<close> from the existence check: for the name of 300 letters
  the check raises, and since it stands before the \<^verbatim>\<open>try\<close> the detector returns no
  outcome at all, with no step called. The missing \<^verbatim>\<open>fichier_inexistant.docx\<close>, for
  which the check answers, gets the error outcome of the claim.
\<close>

theorem detect_missing_path_fault_escapes:
  "detect_document_type DocumentService_init world_name_too_long long_name =
     (Inl (OSError ''[Errno 36] File name too long''), [])
   \<and> detect_document_type DocumentService_init world_missing ''fichier_inexistant.docx'' =
     (Inr \<lparr>file_info = None, detection = None, processing = None,
           status = ''error'',
           error = Some (''Fichier non trouv'' @ e_acute @ '':fichier_inexistant.docx'')\<rparr>,
      [])"
  by (simp add: detect_document_type_def world_name_too_long_def world_missing_def
        world_txt_def)

text \<open>
  Claim C5 at the input where it fails. The existence check stands before the
  \<^verbatim>\<open>try\<close>: when it raises, the exception reaches the caller and no outcome is
  returned, whereas the same exception raised by the \<^verbatim>\<open>stat\<close> of the probe, inside the
  \<^verbatim>\<open>try\<close>, becomes an error outcome.
\<close>

theorem detect_existence_fault_escapes:
  "detect_document_type DocumentService_init world_denied ''/data/notes.txt'' =
     (Inl (OSError ''[Errno 13] Permission denied''), [])
   \<and> detect_document_type DocumentService_init world_stat_denied ''/data/notes.txt'' =
     (Inr \<lparr>file_info = None, detection = None, processing = None,
           status = ''error'',
           error = Some (''Erreur lors de l'' @ [CHR 0x27] @ ''analyse: '' @
                         ''[Errno 13] Permission denied'')\<rparr>,
      [ExtractFileInfo])"
  by (simp add: detect_document_type_def detect_try_def extract_file_info_def
        world_denied_def world_stat_denied_def world_txt_def)

text \<open>
  Claim C6. Whatever exception the body of the content classifier raises (the
  sniffing primitive failing on an unreadable file, among others), the classifier
  returns the classification with detected type "unknown", media identifier "error",
  confidence 0 and \<open>is_supported = false\<close>; and when the file exists and the probe
  succeeds, the detection ends as a success whose classification is the extension
  classifier's with \<open>resolution = "extension_fallback"\<close>, all five steps having run.
\<close>

theorem sniffing_fault_is_not_fatal:
  assumes "detect_by_mime_try ds w = Inl e"
  shows "detect_by_mime ds w =
           Inr \<lparr>method_dr = ''mime_content'', detected_type = ''unknown'',
                mime_type = ''error'',
                description = ''Erreur d'' @ e_acute @ ''tection MIME: '' @ str_exception e,
                confidence = 0, is_supported = False,
                resolution = None, extension_match = None\<rparr>
         \<and> (path_exists w = Inr True \<and> extract_file_info w = Inr fi \<longrightarrow>
              (\<exists>ext p.
                  detect_by_extension ds w = Inr ext
                \<and> detect_document_type ds w file_path =
                    (Inr \<lparr>file_info = Some fi,
                          detection = Some (ext\<lparr>resolution := Some ''extension_fallback''\<rparr>),
                          processing = Some p, status = ''success'', error = None\<rparr>,
                     [ExtractFileInfo, DetectByExtension, DetectByMime,
                      ResolveDetectionConflicts, GenerateProcessingInfo])))"
proof -
  let ?m = "\<lparr>method_dr = ''mime_content'', detected_type = ''unknown'',
                mime_type = ''error'',
                description = ''Erreur d'' @ e_acute @ ''tection MIME: '' @ str_exception e,
                confidence = 0, is_supported = False,
                resolution = None, extension_match = None\<rparr>"
  have m: "detect_by_mime ds w = Inr ?m"
    using assms by (simp add: detect_by_mime_def)
  obtain ext where x: "detect_by_extension ds w = Inr ext"
    using detect_by_extension_total by blast
  have r: "resolve_detection_conflicts ext ?m = ext\<lparr>resolution := Some ''extension_fallback''\<rparr>"
    by (simp add: resolve_detection_conflicts_def)
  obtain p where p: "generate_processing_info ds
      (ext\<lparr>resolution := Some ''extension_fallback''\<rparr>) fi = Inr p"
    using generate_processing_info_total by blast
  have "path_exists w = Inr True \<and> extract_file_info w = Inr fi \<longrightarrow>
          detect_document_type ds w file_path =
            (Inr \<lparr>file_info = Some fi,
                  detection = Some (ext\<lparr>resolution := Some ''extension_fallback''\<rparr>),
                  processing = Some p, status = ''success'', error = None\<rparr>,
             [ExtractFileInfo, DetectByExtension, DetectByMime,
              ResolveDetectionConflicts, GenerateProcessingInfo])"
    using m x r p by (simp add: detect_document_type_def detect_try_def Let_def)
  with m x show ?thesis by blast
qed

theorem sniffing_fault_is_not_fatal_witness:
  "detect_by_mime_try DocumentService_init world_unreadable =
     Inl (OSError ''[Errno 13] Permission denied'')
   \<and> path_exists world_unreadable = Inr True
   \<and> extract_file_info world_unreadable = Inr file_info_txt
   \<and> confidence (projr (detect_by_mime DocumentService_init world_unreadable)) = 0
   \<and> mime_type (projr (detect_by_mime DocumentService_init world_unreadable)) = ''error''
   \<and> (\<exists>p. detect_document_type DocumentService_init world_unreadable ''/data/notes.txt'' =
            (Inr \<lparr>file_info = Some file_info_txt,
                  detection = Some (ext_txt\<lparr>resolution := Some ''extension_fallback''\<rparr>),
                  processing = Some p, status = ''success'', error = None\<rparr>,
             [ExtractFileInfo, DetectByExtension, DetectByMime,
              ResolveDetectionConflicts, GenerateProcessingInfo]))"
proof -
  have t: "detect_by_mime_try DocumentService_init world_unreadable =
             Inl (OSError ''[Errno 13] Permission denied'')"
    by (simp add: detect_by_mime_try_def sniff_def world_unreadable_def world_txt_def)
  have e: "path_exists world_unreadable = Inr True"
    by (simp add: world_unreadable_def world_txt_def)
  have "extract_file_info world_unreadable = extract_file_info world_txt"
    by (simp add: extract_file_info_def world_unreadable_def world_txt_def)
  then have i: "extract_file_info world_unreadable = Inr file_info_txt"
    by (simp add: info_world_txt)
  have "detect_by_extension DocumentService_init world_unreadable =
          detect_by_extension DocumentService_init world_txt"
    by (simp add: detect_by_extension_def world_unreadable_def world_txt_def)
  then have x: "detect_by_extension DocumentService_init world_unreadable = Inr ext_txt"
    by (simp add: ext_world_txt)
  show ?thesis
    using sniffing_fault_is_not_fatal [OF t, of file_info_txt "''/data/notes.txt''"] t e i x
    by auto
qed

end
